theory Spec2Isabelle
  imports Complex_Main "HOL-Library.Char_ord" "HOL-Library.List_Lexorder"
begin

section \<open>Divvy bike share: cleaning pipeline and KPI aggregates\<close>

text \<open>
  The development embeds the data pipeline of \<^verbatim>\<open>divvy_bike_share_analysis.py\<close> (the
  analysis script: loading, cleaning, combining, KPIs, top-10 stations) and the aggregates
  of \<^verbatim>\<open>divvy_bike_export_excel.py\<close> (the export script: KPIs, hourly and daily
  tables, top-20 stations, summary statistics).

  Modelling decisions:
  \<^item> a data frame is the list of its rows, in row order;
  \<^item> a timestamp is an integer number of nanoseconds since the epoch, the resolution
    of a pandas \<^verbatim>\<open>datetime64[ns]\<close> column;
  \<^item> Python and numpy floats are exact rationals, so a quotient is the exact quotient;
    the one non-numeric float that the code can produce, NaN, is a value of its own;
  \<^item> a Python exception is a value \<open>Inl e\<close> of a sum type;
  \<^item> a missing cell (NaN in an object column) is \<open>None\<close>.
\<close>

subsection \<open>Values and errors\<close>

datatype py_error = ZeroDivisionError | IndexError | ValueError | ParserError

datatype pyfloat = NaN | Num rat

type_synonym timestamp = int

definition ns_per_second :: int where
  "ns_per_second = 1000000000"

subsection \<open>Raw records\<close>

text \<open>
  A cell of a timestamp column as \<^verbatim>\<open>pd.read_csv\<close> delivers it: missing, a text that
  \<^verbatim>\<open>pd.to_datetime\<close> parses to a timestamp, or a text that it rejects.
\<close>

datatype ts_cell = NaCell | Stamp timestamp | Malformed

record raw_record =
  raw_ride_id :: "string option"
  raw_started_at :: ts_cell
  raw_ended_at :: ts_cell
  raw_start_station_name :: "string option"
  raw_end_station_name :: "string option"
  raw_member_casual :: "string option"

text \<open>
  A source file: \<^verbatim>\<open>pd.read_csv\<close> either raises (or a required column is absent, which
  raises at the first use of the column) or delivers a table.
\<close>

datatype raw_file = Unreadable | Table "raw_record list"

subsection \<open>Cleaned records\<close>

text \<open>
  The row after lines 96--105 (with the derived duration), and the row of the canonical
  dataset, which adds the membership indicator of line 114.
\<close>

record timed =
  ride_id :: "string option"
  started_at :: timestamp
  ended_at :: timestamp
  start_station_name :: "string option"
  end_station_name :: "string option"
  member_casual :: "string option"
  trip_duration_minutes :: rat

record trip = timed +
  membership_indicator :: nat

subsection \<open>The Record Cleaner (analysis script, lines 91--121)\<close>

text \<open>Line 96: \<^verbatim>\<open>dropna(subset=['ride_id', 'started_at', 'ended_at'])\<close>.\<close>

definition dropna :: "raw_record list \<Rightarrow> raw_record list" where
  "dropna rows =
     filter (\<lambda>r. raw_ride_id r \<noteq> None \<and> raw_started_at r \<noteq> NaCell \<and> raw_ended_at r \<noteq> NaCell) rows"

text \<open>
  Lines 99--100: \<^verbatim>\<open>pd.to_datetime\<close> raises on a text it cannot parse. A missing cell
  would become NaT, but \<open>dropna\<close> has removed every row with a missing timestamp before
  the conversion (lemma \<open>dropna_no_NaCell\<close>), so the last equation is never reached
  from \<open>clean_table\<close>.
\<close>

fun to_datetime :: "ts_cell \<Rightarrow> py_error + timestamp" where
  "to_datetime (Stamp t) = Inr t"
| "to_datetime Malformed = Inl ValueError"
| "to_datetime NaCell = Inl ValueError"

text \<open>
  Line 103: \<^verbatim>\<open>(ended_at - started_at).dt.total_seconds() / 60\<close>.
\<close>

definition duration_minutes :: "timestamp \<Rightarrow> timestamp \<Rightarrow> rat" where
  "duration_minutes s e = of_int (e - s) / of_int ns_per_second / 60"

definition with_duration :: "raw_record \<Rightarrow> py_error + timed" where
  "with_duration r =
     (case to_datetime (raw_started_at r) of
        Inl err \<Rightarrow> Inl err
      | Inr s \<Rightarrow>
          (case to_datetime (raw_ended_at r) of
             Inl err \<Rightarrow> Inl err
           | Inr e \<Rightarrow>
               Inr \<lparr>ride_id = raw_ride_id r, started_at = s, ended_at = e,
                    start_station_name = raw_start_station_name r,
                    end_station_name = raw_end_station_name r,
                    member_casual = raw_member_casual r,
                    trip_duration_minutes = duration_minutes s e\<rparr>))"

text \<open>A column operation raises as soon as one row raises.\<close>

fun all_rows :: "(py_error + 'a) list \<Rightarrow> py_error + 'a list" where
  "all_rows [] = Inr []"
| "all_rows (Inl err # xs) = Inl err"
| "all_rows (Inr x # xs) = (case all_rows xs of Inl err \<Rightarrow> Inl err | Inr ys \<Rightarrow> Inr (x # ys))"

text \<open>Lines 108--111: \<^verbatim>\<open>fillna("Unknown")\<close>, then \<^verbatim>\<open>replace('', "Unknown")\<close>.\<close>

definition fillna :: "string option \<Rightarrow> string option" where
  "fillna c = (case c of None \<Rightarrow> Some ''Unknown'' | Some s \<Rightarrow> Some s)"

definition replace_empty :: "string option \<Rightarrow> string option" where
  "replace_empty c = (if c = Some '''' then Some ''Unknown'' else c)"

definition standardize_stations :: "timed \<Rightarrow> timed" where
  "standardize_stations r =
     r\<lparr>start_station_name := replace_empty (fillna (start_station_name r)),
       end_station_name := replace_empty (fillna (end_station_name r))\<rparr>"

text \<open>Line 114: \<^verbatim>\<open>(member_casual == 'member').astype(int)\<close>.\<close>

definition add_membership_indicator :: "timed \<Rightarrow> trip" where
  "add_membership_indicator r =
     \<lparr>ride_id = ride_id r, started_at = started_at r, ended_at = ended_at r,
      start_station_name = start_station_name r, end_station_name = end_station_name r,
      member_casual = member_casual r, trip_duration_minutes = trip_duration_minutes r,
      membership_indicator = (if member_casual r = Some ''member'' then 1 else 0)\<rparr>"

definition clean_table :: "raw_record list \<Rightarrow> py_error + trip list" where
  "clean_table rows =
     (case all_rows (map with_duration (dropna rows)) of
        Inl err \<Rightarrow> Inl err
      | Inr t \<Rightarrow>
          Inr (map add_membership_indicator
                (map standardize_stations
                  (filter (\<lambda>r. trip_duration_minutes r \<le> 24 * 60)
                    (filter (\<lambda>r. trip_duration_minutes r > 0) t)))))"

text \<open>
  The raw rows that the cleaner admits, described on the raw table: all three keys
  present, both timestamps parsed, and the duration in range.
\<close>

definition raw_minutes :: "raw_record \<Rightarrow> rat option" where
  "raw_minutes r =
     (case (raw_started_at r, raw_ended_at r) of
        (Stamp s, Stamp e) \<Rightarrow> Some (duration_minutes s e)
      | _ \<Rightarrow> None)"

definition admitted :: "raw_record \<Rightarrow> bool" where
  "admitted r =
     (raw_ride_id r \<noteq> None \<and>
      (case raw_minutes r of None \<Rightarrow> False | Some d \<Rightarrow> 0 < d \<and> d \<le> 1440))"

text \<open>What a cleaned record owes to the raw row it comes from.\<close>

definition cleaned_from :: "raw_record \<Rightarrow> trip \<Rightarrow> bool" where
  "cleaned_from r t =
     (Some (trip_duration_minutes t) = raw_minutes r \<and>
      ride_id t = raw_ride_id r \<and>
      raw_started_at r = Stamp (started_at t) \<and>
      raw_ended_at r = Stamp (ended_at t) \<and>
      start_station_name t = replace_empty (fillna (raw_start_station_name r)) \<and>
      end_station_name t = replace_empty (fillna (raw_end_station_name r)) \<and>
      member_casual t = raw_member_casual r \<and>
      membership_indicator t = (if raw_member_casual r = Some ''member'' then 1 else 0))"

text \<open>A station cell that carries no name: missing, or the empty text.\<close>

definition is_missing_name :: "string option \<Rightarrow> bool" where
  "is_missing_name c = (c = None \<or> c = Some '''')"

subsection \<open>Loader and Dataset Combiner (analysis script, lines 72--138)\<close>

text \<open>
  Lines 91--121: one pass of the loop body. Whatever the \<^verbatim>\<open>try\<close> block raises is
  caught, reported, and the file is skipped.
\<close>

fun process_file :: "raw_file \<Rightarrow> py_error + trip list" where
  "process_file Unreadable = Inl ParserError"
| "process_file (Table rows) = clean_table rows"

text \<open>
  Lines 85--121: the loop over the sorted paths; the result is the list
  \<^verbatim>\<open>processed_dataframes\<close> after the loop.
\<close>

fun processed_dataframes :: "raw_file list \<Rightarrow> trip list list" where
  "processed_dataframes [] = []"
| "processed_dataframes (f # fs) =
     (case process_file f of
        Inl err \<Rightarrow> processed_dataframes fs
      | Inr t \<Rightarrow> t # processed_dataframes fs)"

text \<open>
  Lines 72--138. The cache is the content of the processed file when it exists. \<open>Inl n\<close>
  is \<^verbatim>\<open>exit(n)\<close>; \<open>Inr ds\<close> is the dataset the script goes on with.
\<close>

definition load_dataset :: "trip list option \<Rightarrow> raw_file list \<Rightarrow> nat + trip list" where
  "load_dataset cache files =
     (case cache of
        None \<Rightarrow>
          (if processed_dataframes files \<noteq> [] then Inr (concat (processed_dataframes files))
           else Inl 1)
      | Some ds \<Rightarrow> Inr ds)"

subsection \<open>Python and pandas primitives\<close>

text \<open>Python's \<^verbatim>\<open>/\<close> on two numbers raises on a zero divisor.\<close>

definition py_div :: "rat \<Rightarrow> rat \<Rightarrow> py_error + rat" where
  "py_div a b = (if b = 0 then Inl ZeroDivisionError else Inr (a / b))"

text \<open>
  A Python number divided by a float that may be NaN: NaN is no zero, and the quotient
  is NaN.
\<close>

definition div_by_float :: "rat \<Rightarrow> pyfloat \<Rightarrow> py_error + pyfloat" where
  "div_by_float a b =
     (case b of
        NaN \<Rightarrow> Inr NaN
      | Num d \<Rightarrow> (case py_div a d of Inl err \<Rightarrow> Inl err | Inr q \<Rightarrow> Inr (Num q)))"

text \<open>\<^verbatim>\<open>Series.mean()\<close>: the mean of an empty series is NaN, and nothing is raised.\<close>

definition series_mean :: "rat list \<Rightarrow> pyfloat" where
  "series_mean xs = (if xs = [] then NaN else Num (sum_list xs / of_nat (length xs)))"

text \<open>\<^verbatim>\<open>.iloc[0]\<close> raises \<^verbatim>\<open>IndexError\<close> on an empty selection.\<close>

definition iloc0 :: "'a list \<Rightarrow> py_error + 'a" where
  "iloc0 xs = (case xs of [] \<Rightarrow> Inl IndexError | x # _ \<Rightarrow> Inr x)"

text \<open>The values of a column that are not missing, in row order.\<close>

definition present :: "'a option list \<Rightarrow> 'a list" where
  "present col = List.map_filter (\<lambda>c. c) col"

text \<open>\<^verbatim>\<open>Series.nunique()\<close>: the number of distinct values, missing ones left out.\<close>

definition nunique :: "'a option list \<Rightarrow> nat" where
  "nunique col = length (remdups (present col))"

text \<open>
  \<^verbatim>\<open>groupby(col).size()\<close> on a text column: one entry per distinct value in sorted
  order, rows with a missing key left out.
\<close>

definition groupby_size :: "string option list \<Rightarrow> (string \<times> nat) list" where
  "groupby_size col =
     map (\<lambda>k. (k, length (filter (\<lambda>c. c = Some k) col))) (sort (remdups (present col)))"

text \<open>
  The distinct values of a list in the order in which they first appear (\<open>remdups\<close>
  keeps the last occurrence of each value, so it is applied to the reversed list).
\<close>

definition first_appearance :: "'a list \<Rightarrow> 'a list" where
  "first_appearance xs = rev (remdups (rev xs))"

text \<open>
  \<^verbatim>\<open>Series.value_counts()\<close>: one entry per distinct value with its number of
  occurrences, missing values left out, by descending count; values with equal counts
  stay in the order of their first appearance (the sort is stable).
\<close>

definition value_counts :: "string option list \<Rightarrow> (string \<times> nat) list" where
  "value_counts col =
     sort_key (\<lambda>kc. - int (snd kc))
       (map (\<lambda>k. (k, length (filter (\<lambda>c. c = Some k) col)))
         (first_appearance (present col)))"

text \<open>
  \<^verbatim>\<open>df[df[col] != "Unknown"]\<close>: a missing cell is different from \<^verbatim>\<open>"Unknown"\<close>, so its
  row stays.
\<close>

definition not_unknown :: "(trip \<Rightarrow> string option) \<Rightarrow> trip list \<Rightarrow> trip list" where
  "not_unknown col ds = filter (\<lambda>r. col r \<noteq> Some ''Unknown'') ds"

subsection \<open>Derived columns (analysis lines 145--150, export lines 9--12)\<close>

definition ns_per_hour :: int where
  "ns_per_hour = 3600 * ns_per_second"

definition ns_per_day :: int where
  "ns_per_day = 24 * 3600 * ns_per_second"

definition start_hour :: "trip \<Rightarrow> int" where
  "start_hour r = (started_at r div ns_per_hour) mod 24"

definition day_order :: "string list" where
  "day_order = [''Monday'', ''Tuesday'', ''Wednesday'', ''Thursday'', ''Friday'',
                ''Saturday'', ''Sunday'']"

text \<open>\<^verbatim>\<open>dt.day_name()\<close>: the epoch, 1 January 1970, was a Thursday.\<close>

definition day_of_week :: "trip \<Rightarrow> string" where
  "day_of_week r = day_order ! nat ((started_at r div ns_per_day + 3) mod 7)"

subsection \<open>KPIs of the analysis script (lines 182--198)\<close>

definition total_trips :: "trip list \<Rightarrow> nat" where
  "total_trips ds = length ds"

text \<open>
  The span between the latest and the earliest start, in nanoseconds. On an empty column
  \<^verbatim>\<open>max()\<close> and \<^verbatim>\<open>min()\<close> are NaT and so is their difference: \<open>None\<close>.
\<close>

definition start_span :: "trip list \<Rightarrow> int option" where
  "start_span ds =
     (if ds = [] then None
      else Some (Max (set (map started_at ds)) - Min (set (map started_at ds))))"

text \<open>Line 188: \<^verbatim>\<open>total_seconds() / (24 * 3600)\<close>; NaT gives NaN.\<close>

definition analysis_period_days :: "trip list \<Rightarrow> pyfloat" where
  "analysis_period_days ds =
     (case start_span ds of
        None \<Rightarrow> NaN
      | Some d \<Rightarrow> Num (of_int d / of_int ns_per_second / (24 * 3600)))"

definition daily_trip_efficiency :: "trip list \<Rightarrow> py_error + pyfloat" where
  "daily_trip_efficiency ds = div_by_float (of_nat (total_trips ds)) (analysis_period_days ds)"

text \<open>Lines 192--194.\<close>

definition station_utilization_data :: "trip list \<Rightarrow> (string \<times> nat) list" where
  "station_utilization_data ds =
     groupby_size (map start_station_name (not_unknown start_station_name ds))"

definition average_station_efficiency :: "trip list \<Rightarrow> pyfloat" where
  "average_station_efficiency ds =
     series_mean (map (\<lambda>kc. of_nat (snd kc)) (station_utilization_data ds))"

definition total_active_stations :: "trip list \<Rightarrow> nat" where
  "total_active_stations ds = length (station_utilization_data ds)"

text \<open>
  For the statements about these two KPIs: the start station names of a dataset other
  than the sentinel, and the trips that start at one of them.
\<close>

definition has_real_start :: "trip \<Rightarrow> bool" where
  "has_real_start r =
     (case start_station_name r of None \<Rightarrow> False | Some s \<Rightarrow> s \<noteq> ''Unknown'')"

definition real_start_names :: "trip list \<Rightarrow> string set" where
  "real_start_names ds = set (present (map start_station_name ds)) - {''Unknown''}"

text \<open>Lines 197--198.\<close>

definition optimal_duration_trips :: "trip list \<Rightarrow> nat" where
  "optimal_duration_trips ds =
     length (filter (\<lambda>r. trip_duration_minutes r \<ge> 5 \<and> trip_duration_minutes r \<le> 60) ds)"

definition user_satisfaction_rate :: "trip list \<Rightarrow> py_error + rat" where
  "user_satisfaction_rate ds =
     (case py_div (of_nat (optimal_duration_trips ds)) (of_nat (total_trips ds)) of
        Inl err \<Rightarrow> Inl err
      | Inr q \<Rightarrow> Inr (q * 100))"

text \<open>
  The analysis script from its start to the end of the KPI section. Line 163 formats the
  earliest start, which raises \<^verbatim>\<open>ValueError\<close> when it is NaT (an empty dataset); then
  the KPIs are computed in source order.
\<close>

definition analysis_kpis :: "trip list \<Rightarrow> py_error + (pyfloat \<times> pyfloat \<times> rat)" where
  "analysis_kpis ds =
     (if ds = [] then Inl ValueError
      else
        (case daily_trip_efficiency ds of
           Inl err \<Rightarrow> Inl err
         | Inr daily \<Rightarrow>
             (case user_satisfaction_rate ds of
                Inl err \<Rightarrow> Inl err
              | Inr sat \<Rightarrow> Inr (daily, average_station_efficiency ds, sat))))"

text \<open>
  How the process ends, as far as the KPI section decides it: \<open>Inl n\<close> is an exit with
  status \<open>n\<close> (\<^verbatim>\<open>exit(1)\<close> of line 134, or an exception that nothing catches, on which
  the interpreter ends with status 1); \<open>Inr k\<close> is a run that has computed its KPIs and
  goes on to the charts.
\<close>

definition analysis_script ::
  "trip list option \<Rightarrow> raw_file list \<Rightarrow> nat + (pyfloat \<times> pyfloat \<times> rat)" where
  "analysis_script cache files =
     (case load_dataset cache files of
        Inl n \<Rightarrow> Inl n
      | Inr ds \<Rightarrow> (case analysis_kpis ds of Inl err \<Rightarrow> Inl 1 | Inr k \<Rightarrow> Inr k))"

text \<open>Lines 506--507: the top-10 tables of the station charts.\<close>

definition real_stations_start :: "trip list \<Rightarrow> (string \<times> nat) list" where
  "real_stations_start ds =
     take 10 (value_counts (map start_station_name (not_unknown start_station_name ds)))"

definition real_stations_end :: "trip list \<Rightarrow> (string \<times> nat) list" where
  "real_stations_end ds =
     take 10 (value_counts (map end_station_name (not_unknown end_station_name ds)))"

subsection \<open>KPIs of the export script (lines 28--45)\<close>

definition member_trips :: "trip list \<Rightarrow> nat" where
  "member_trips ds = length (filter (\<lambda>r. member_casual r = Some ''member'') ds)"

definition member_percentage :: "trip list \<Rightarrow> py_error + rat" where
  "member_percentage ds =
     (case py_div (of_nat (member_trips ds)) (of_nat (total_trips ds)) of
        Inl err \<Rightarrow> Inl err
      | Inr q \<Rightarrow> Inr (q * 100))"

text \<open>
  Line 36: \<^verbatim>\<open>.days\<close>, the whole days of the span (the rest of the span is in the
  \<^verbatim>\<open>seconds\<close> field, which the script does not read); NaT gives NaN.
\<close>

definition date_range :: "trip list \<Rightarrow> pyfloat" where
  "date_range ds =
     (case start_span ds of
        None \<Rightarrow> NaN
      | Some d \<Rightarrow> Num (of_int (d div ns_per_day)))"

definition daily_efficiency :: "trip list \<Rightarrow> py_error + pyfloat" where
  "daily_efficiency ds = div_by_float (of_nat (total_trips ds)) (date_range ds)"

definition real_stations :: "trip list \<Rightarrow> nat" where
  "real_stations ds = nunique (map start_station_name (not_unknown start_station_name ds))"

definition station_efficiency :: "trip list \<Rightarrow> py_error + rat" where
  "station_efficiency ds = py_div (of_nat (total_trips ds)) (of_nat (real_stations ds))"

definition optimal_trips :: "trip list \<Rightarrow> nat" where
  "optimal_trips ds =
     length (filter (\<lambda>r. trip_duration_minutes r \<ge> 5 \<and> trip_duration_minutes r \<le> 60) ds)"

definition satisfaction_rate :: "trip list \<Rightarrow> py_error + rat" where
  "satisfaction_rate ds =
     (case py_div (of_nat (optimal_trips ds)) (of_nat (total_trips ds)) of
        Inl err \<Rightarrow> Inl err
      | Inr q \<Rightarrow> Inr (q * 100))"

subsection \<open>Grouped tables of the export script (lines 62--89)\<close>

text \<open>
  A row of \<^verbatim>\<open>groupby(key).agg({'ride_id': 'count', 'membership_indicator': 'mean',
  'trip_duration_minutes': 'mean'})\<close>. \<^verbatim>\<open>count\<close> counts the cells of the group that are
  not missing.
\<close>

record 'k agg_row =
  group_key :: 'k
  row_total_trips :: nat
  row_membership_indicator :: pyfloat
  row_trip_duration_minutes :: pyfloat

definition agg :: "'k \<Rightarrow> trip list \<Rightarrow> 'k agg_row" where
  "agg k g =
     \<lparr>group_key = k,
      row_total_trips = length (filter (\<lambda>r. ride_id r \<noteq> None) g),
      row_membership_indicator = series_mean (map (\<lambda>r. of_nat (membership_indicator r)) g),
      row_trip_duration_minutes = series_mean (map trip_duration_minutes g)\<rparr>"

text \<open>The groups of a key that is never missing, in sorted key order.\<close>

definition groupby_agg :: "(trip \<Rightarrow> 'k::linorder) \<Rightarrow> trip list \<Rightarrow> 'k agg_row list" where
  "groupby_agg key ds =
     map (\<lambda>k. agg k (filter (\<lambda>r. key r = k) ds)) (sort (remdups (map key ds)))"

definition hourly_data :: "trip list \<Rightarrow> int agg_row list" where
  "hourly_data ds = groupby_agg start_hour ds"

text \<open>
  Lines 85--86: the code of a day name in the ordered categorical (its position in
  \<^verbatim>\<open>day_order\<close>), and the sort by it.
\<close>

fun category_code :: "'a list \<Rightarrow> 'a \<Rightarrow> nat" where
  "category_code [] x = 0"
| "category_code (c # cs) x = (if x = c then 0 else Suc (category_code cs x))"

definition daily_data :: "trip list \<Rightarrow> string agg_row list" where
  "daily_data ds =
     sort_key (\<lambda>row. category_code day_order (group_key row)) (groupby_agg day_of_week ds)"

subsection \<open>Top stations of the export script (lines 152--167)\<close>

record station_row =
  station_name :: string
  station_total_trips :: nat
  percentage :: rat

text \<open>
  Lines 152--154 and 163--165. The quotient by \<^verbatim>\<open>total_trips\<close> is taken row by row, so
  it is only taken when the table has a row, and then the dataset is not empty.
\<close>

definition top_stations :: "(trip \<Rightarrow> string option) \<Rightarrow> trip list \<Rightarrow> station_row list" where
  "top_stations col ds =
     map (\<lambda>kc. \<lparr>station_name = fst kc, station_total_trips = snd kc,
                 percentage = (of_nat (snd kc) / of_nat (total_trips ds)) * 100\<rparr>)
       (take 20 (value_counts (map col ds)))"

definition start_stations :: "trip list \<Rightarrow> station_row list" where
  "start_stations ds = top_stations start_station_name ds"

definition end_stations :: "trip list \<Rightarrow> station_row list" where
  "end_stations ds = top_stations end_station_name ds"

subsection \<open>Summary statistics of the export script (lines 243--264)\<close>

text \<open>Lines 260--261: the row of the hourly table for one hour.\<close>

definition peak_hour_trips :: "int \<Rightarrow> trip list \<Rightarrow> py_error + nat" where
  "peak_hour_trips h ds =
     iloc0 (map row_total_trips (filter (\<lambda>row. group_key row = h) (hourly_data ds)))"




text \<open>Lines 174--181: the share of the known stations among the distinct start names.\<close>

definition total_start_stations :: "trip list \<Rightarrow> nat" where
  "total_start_stations ds = nunique (map start_station_name ds)"

definition real_station_percentage :: "trip list \<Rightarrow> py_error + rat" where
  "real_station_percentage ds =
     (case py_div (of_nat (real_stations ds)) (of_nat (total_start_stations ds)) of
        Inl err \<Rightarrow> Inl err
      | Inr q \<Rightarrow> Inr (q * 100))"

text \<open>Line 256: the trips per known end station.\<close>

definition end_station_efficiency :: "trip list \<Rightarrow> py_error + rat" where
  "end_station_efficiency ds =
     py_div (of_nat (total_trips ds))
       (of_nat (nunique (map end_station_name (not_unknown end_station_name ds))))"

text \<open>
  Lines 205--208: the rides of at most two hours, and \<^verbatim>\<open>pd.cut(..., bins=50)\<close>, which
  raises \<^verbatim>\<open>ValueError\<close> when there is no such ride. The bins themselves are not
  modelled: the result is the number of rides that are binned.
\<close>

definition reasonable_rides :: "trip list \<Rightarrow> trip list" where
  "reasonable_rides ds = filter (\<lambda>r. trip_duration_minutes r \<le> 120) ds"

definition duration_bins :: "trip list \<Rightarrow> py_error + nat" where
  "duration_bins ds =
     (if reasonable_rides ds = [] then Inl ValueError else Inr (length (reasonable_rides ds)))"

text \<open>Lines 28--45: the KPIs, computed before the first sheet is written (line 55).\<close>

definition export_kpis :: "trip list \<Rightarrow> py_error + (rat \<times> pyfloat \<times> rat \<times> rat)" where
  "export_kpis ds =
     (case member_percentage ds of Inl err \<Rightarrow> Inl err | Inr mp \<Rightarrow>
     (case daily_efficiency ds of Inl err \<Rightarrow> Inl err | Inr de \<Rightarrow>
     (case station_efficiency ds of Inl err \<Rightarrow> Inl err | Inr se \<Rightarrow>
     (case satisfaction_rate ds of Inl err \<Rightarrow> Inl err | Inr sr \<Rightarrow>
        Inr (mp, de, se, sr)))))"

text \<open>
  Lines 57--289: what can raise after the first sheet, in the order in which the script
  evaluates it: the station shares (line 181), the duration bins (line 208), the trips
  per known end station (line 256) and the two peak-hour rows (lines 260--261).
\<close>

definition export_tables :: "trip list \<Rightarrow> py_error + (rat \<times> nat \<times> rat \<times> nat \<times> nat)" where
  "export_tables ds =
     (case real_station_percentage ds of Inl err \<Rightarrow> Inl err | Inr rp \<Rightarrow>
     (case duration_bins ds of Inl err \<Rightarrow> Inl err | Inr nb \<Rightarrow>
     (case end_station_efficiency ds of Inl err \<Rightarrow> Inl err | Inr ee \<Rightarrow>
     (case peak_hour_trips 8 ds of Inl err \<Rightarrow> Inl err | Inr p8 \<Rightarrow>
     (case peak_hour_trips 18 ds of Inl err \<Rightarrow> Inl err | Inr p18 \<Rightarrow>
        Inr (rp, nb, ee, p8, p18))))))"

text \<open>
  Lines 18--289: the block \<^verbatim>\<open>with pd.ExcelWriter(...) as writer\<close>. Nothing in the script
  catches an exception, so the first statement that raises ends the block; leaving the
  block closes the writer, which saves the workbook. When no sheet has been written yet
  (an exception of lines 28--45) the save itself raises \<^verbatim>\<open>IndexError\<close>, a workbook
  needing at least one sheet, and that is the exception that leaves the script. When a
  sheet has been written the save succeeds and the exception of the block leaves the
  script. (Writing the sheets is taken to succeed.)
\<close>

definition export_values ::
  "trip list \<Rightarrow>
     py_error + ((rat \<times> pyfloat \<times> rat \<times> rat) \<times> (rat \<times> nat \<times> rat \<times> nat \<times> nat))" where
  "export_values ds =
     (case export_kpis ds of
        Inl err \<Rightarrow> Inl IndexError
      | Inr k \<Rightarrow> (case export_tables ds of Inl err \<Rightarrow> Inl err | Inr t \<Rightarrow> Inr (k, t)))"

subsection \<open>A worked input\<close>

text \<open>
  Three raw rows with durations of 10, 70 and 1500 minutes, one missing and one empty
  station name, and the table that the cleaner makes of them.
\<close>

definition mk_raw :: "string \<Rightarrow> int \<Rightarrow> int \<Rightarrow> string option \<Rightarrow> string option \<Rightarrow> string option \<Rightarrow> raw_record" where
  "mk_raw i s e a b m =
     \<lparr>raw_ride_id = Some i, raw_started_at = Stamp s, raw_ended_at = Stamp e,
      raw_start_station_name = a, raw_end_station_name = b, raw_member_casual = m\<rparr>"

definition scenario_rows :: "raw_record list" where
  "scenario_rows =
     [mk_raw ''A1'' 0 600000000000 (Some ''Clark St'') None (Some ''member''),
      mk_raw ''A2'' 0 4200000000000 (Some '''') (Some ''Clark St'') (Some ''casual''),
      mk_raw ''A3'' 0 90000000000000 (Some ''Clark St'') (Some ''Canal St'') (Some ''member'')]"

definition scenario_trips :: "trip list" where
  "scenario_trips =
     [\<lparr>ride_id = Some ''A1'', started_at = 0, ended_at = 600000000000,
       start_station_name = Some ''Clark St'', end_station_name = Some ''Unknown'',
       member_casual = Some ''member'', trip_duration_minutes = 10, membership_indicator = 1\<rparr>,
      \<lparr>ride_id = Some ''A2'', started_at = 0, ended_at = 4200000000000,
       start_station_name = Some ''Unknown'', end_station_name = Some ''Clark St'',
       member_casual = Some ''casual'', trip_duration_minutes = 70, membership_indicator = 0\<rparr>]"

text \<open>Two rows whose user category is not one of the two expected values.\<close>

definition legacy_rows :: "raw_record list" where
  "legacy_rows =
     [mk_raw ''B1'' 0 600000000000 (Some ''Clark St'') (Some ''Canal St'') (Some ''Subscriber''),
      mk_raw ''B2'' 0 600000000000 (Some ''Clark St'') (Some ''Canal St'') None]"

definition legacy_trips :: "trip list" where
  "legacy_trips =
     [\<lparr>ride_id = Some ''B1'', started_at = 0, ended_at = 600000000000,
       start_station_name = Some ''Clark St'', end_station_name = Some ''Canal St'',
       member_casual = Some ''Subscriber'', trip_duration_minutes = 10, membership_indicator = 0\<rparr>,
      \<lparr>ride_id = Some ''B2'', started_at = 0, ended_at = 600000000000,
       start_station_name = Some ''Clark St'', end_station_name = Some ''Canal St'',
       member_casual = None, trip_duration_minutes = 10, membership_indicator = 0\<rparr>]"

text \<open>Cleaned records written down directly, and three trips that span a day and a half.\<close>

definition mk_trip :: "string \<Rightarrow> int \<Rightarrow> rat \<Rightarrow> string \<Rightarrow> string \<Rightarrow> trip" where
  "mk_trip i s d a b =
     \<lparr>ride_id = Some i, started_at = s, ended_at = s + 600000000000,
      start_station_name = Some a, end_station_name = Some b,
      member_casual = Some ''member'', trip_duration_minutes = d, membership_indicator = 1\<rparr>"

definition day_and_a_half :: "trip list" where
  "day_and_a_half =
     [mk_trip ''D1'' 0 10 ''Clark St'' ''Canal St'',
      mk_trip ''D2'' 0 10 ''Clark St'' ''Canal St'',
      mk_trip ''D3'' 129600000000000 10 ''Canal St'' ''Clark St'']"

text \<open>
  Source files: one that cannot be read and one with a single valid row; and one that
  cannot be read next to the table of three rows above.
\<close>

definition single_file :: "raw_file list" where
  "single_file =
     [Unreadable,
      Table [mk_raw ''A1'' 0 600000000000 (Some ''Clark St'') None (Some ''member'')]]"

definition scenario_files :: "raw_file list" where
  "scenario_files = [Unreadable, Table scenario_rows]"

text \<open>
  Two trips a day apart, the second with the sentinel for both stations; a trip between
  known stations on a Thursday at 08:00 and two trips from the sentinel to the sentinel
  on the Friday after at 18:00; two trips a day apart that both start at the sentinel;
  and two trips with known stations, on a Thursday at 08:00 and on the Friday after at
  18:00.
\<close>

definition mixed_starts :: "trip list" where
  "mixed_starts =
     [mk_trip ''M1'' 0 10 ''Clark St'' ''Canal St'',
      mk_trip ''M2'' 86400000000000 10 ''Unknown'' ''Unknown'']"

definition unknown_listed :: "trip list" where
  "unknown_listed =
     [mk_trip ''L1'' 28800000000000 10 ''Clark St'' ''Canal St'',
      mk_trip ''L2'' 151200000000000 10 ''Unknown'' ''Unknown'',
      mk_trip ''L3'' 151200000000000 10 ''Unknown'' ''Unknown'']"



section \<open>Properties\<close>

subsection \<open>The cleaner, row by row\<close>

lemma dropna_no_NaCell:
  "r \<in> set (dropna rows) \<Longrightarrow> raw_started_at r \<noteq> NaCell \<and> raw_ended_at r \<noteq> NaCell"
  by (simp add: dropna_def)

lemma all_rows_rel:
  "all_rows (map f xs) = Inr ys \<Longrightarrow> list_all2 (\<lambda>x y. f x = Inr y) xs ys"
proof (induction xs arbitrary: ys)
  case Nil
  then show ?case by simp
next
  case (Cons x xs)
  then show ?case
    by (cases "f x") (auto split: sum.splits)
qed

lemma list_all2_filter:
  "list_all2 R xs ys \<Longrightarrow> (\<And>x y. R x y \<Longrightarrow> P x = Q y) \<Longrightarrow>
   list_all2 R (filter P xs) (filter Q ys)"
  by (induction rule: list_all2_induct) auto

lemma list_all2_map_eq:
  "list_all2 R xs ys \<Longrightarrow> (\<And>x y. R x y \<Longrightarrow> g x = f y) \<Longrightarrow> map f ys = map g xs"
  by (induction rule: list_all2_induct) auto

lemma with_duration_Inr:
  "with_duration r = Inr y \<Longrightarrow>
     raw_started_at r = Stamp (started_at y) \<and> raw_ended_at r = Stamp (ended_at y) \<and>
     raw_minutes r = Some (trip_duration_minutes y) \<and> ride_id y = raw_ride_id r \<and>
     start_station_name y = raw_start_station_name r \<and>
     end_station_name y = raw_end_station_name r \<and> member_casual y = raw_member_casual r"
  by (cases "raw_started_at r"; cases "raw_ended_at r")
     (auto simp: with_duration_def raw_minutes_def)

lemma clean_table_rel:
  assumes "clean_table rows = Inr ts"
  shows "list_all2 cleaned_from (filter admitted rows) ts"
proof -
  obtain t where t: "all_rows (map with_duration (dropna rows)) = Inr t"
    and ts: "ts = map add_membership_indicator (map standardize_stations
               (filter (\<lambda>r. trip_duration_minutes r \<le> 24 * 60)
                 (filter (\<lambda>r. trip_duration_minutes r > 0) t)))"
    using assms by (auto simp: clean_table_def split: sum.splits)
  let ?R = "\<lambda>r y. with_duration r = Inr y"
  let ?ok = "\<lambda>r. case raw_minutes r of None \<Rightarrow> False | Some d \<Rightarrow> 0 < d \<and> d \<le> 1440"
  have rel: "list_all2 ?R (dropna rows) t"
    using t by (rule all_rows_rel)
  have "list_all2 ?R (filter ?ok (dropna rows))
          (filter (\<lambda>r. 0 < trip_duration_minutes r \<and> trip_duration_minutes r \<le> 24 * 60) t)"
    using rel by (rule list_all2_filter) (auto dest: with_duration_Inr)
  moreover have "filter ?ok (dropna rows) = filter admitted rows"
    unfolding dropna_def filter_filter
    by (rule filter_cong) (auto simp: admitted_def raw_minutes_def split: ts_cell.splits)
  ultimately have adm: "list_all2 ?R (filter admitted rows)
          (filter (\<lambda>r. trip_duration_minutes r \<le> 24 * 60)
             (filter (\<lambda>r. trip_duration_minutes r > 0) t))"
    by (simp add: conj_commute)
  have "list_all2 (\<lambda>r y. cleaned_from r (add_membership_indicator (standardize_stations y)))
          (filter admitted rows)
          (filter (\<lambda>r. trip_duration_minutes r \<le> 24 * 60)
             (filter (\<lambda>r. trip_duration_minutes r > 0) t))"
    using adm
    by (rule list_all2_mono)
       (auto dest!: with_duration_Inr
             simp: cleaned_from_def add_membership_indicator_def standardize_stations_def)
  then show ?thesis
    unfolding ts by (simp add: list_all2_map2)
qed

lemma clean_scenario: "clean_table scenario_rows = Inr scenario_trips"
  by (simp add: clean_table_def scenario_rows_def scenario_trips_def mk_raw_def dropna_def
      with_duration_def duration_minutes_def ns_per_second_def standardize_stations_def
      add_membership_indicator_def fillna_def replace_empty_def)

lemma admitted_scenario: "filter admitted scenario_rows = take 2 scenario_rows"
  by (simp add: scenario_rows_def mk_raw_def admitted_def raw_minutes_def
      duration_minutes_def ns_per_second_def)

lemma list_all2_right_member:
  "list_all2 R xs ys \<Longrightarrow> y \<in> set ys \<Longrightarrow> \<exists>x \<in> set xs. R x y"
  by (induction rule: list_all2_induct) auto

lemma clean_table_member:
  assumes "clean_table rows = Inr ts" and "t \<in> set ts"
  shows "\<exists>r. admitted r \<and> cleaned_from r t"
proof -
  have "list_all2 cleaned_from (filter admitted rows) ts"
    using assms(1) by (rule clean_table_rel)
  from list_all2_right_member [OF this assms(2)] show ?thesis by auto
qed

lemma processed_dataframes_member:
  "ts \<in> set (processed_dataframes files) \<Longrightarrow> \<exists>rows. clean_table rows = Inr ts"
proof (induction files)
  case Nil
  then show ?case by simp
next
  case (Cons f fs)
  then show ?case
    by (cases f) (auto split: sum.splits)
qed

text \<open>
  Every record of a dataset built from the source files (no cache) is the cleaned form of
  an admitted raw row.
\<close>

lemma built_dataset_member:
  assumes "load_dataset None files = Inr ds" and "t \<in> set ds"
  shows "\<exists>r. admitted r \<and> cleaned_from r t"
proof -
  have "ds = concat (processed_dataframes files)"
    using assms(1) by (simp add: load_dataset_def split: if_splits)
  then obtain ts where "ts \<in> set (processed_dataframes files)" and tin: "t \<in> set ts"
    using assms(2) by auto
  then obtain rows where "clean_table rows = Inr ts"
    using processed_dataframes_member by blast
  then show ?thesis using tin by (rule clean_table_member)
qed

lemma cleaned_from_invariants:
  assumes "admitted r" and "cleaned_from r t"
  shows "0 < trip_duration_minutes t" and "trip_duration_minutes t \<le> 1440"
    and "\<not> is_missing_name (start_station_name t)"
    and "\<not> is_missing_name (end_station_name t)"
    and "ride_id t \<noteq> None"
    and "membership_indicator t = (if member_casual t = Some ''member'' then 1 else 0)"
proof -
  have ok: "\<not> is_missing_name (replace_empty (fillna c))" for c
    by (cases c) (auto simp: replace_empty_def fillna_def is_missing_name_def)
  show "0 < trip_duration_minutes t" and "trip_duration_minutes t \<le> 1440"
    using assms by (auto simp: cleaned_from_def admitted_def split: option.splits)
  show "\<not> is_missing_name (start_station_name t)"
    and "\<not> is_missing_name (end_station_name t)"
    using assms(2) by (simp_all add: cleaned_from_def ok)
  show "ride_id t \<noteq> None"
    using assms by (simp add: cleaned_from_def admitted_def)
  show "membership_indicator t = (if member_casual t = Some ''member'' then 1 else 0)"
    using assms(2) by (simp add: cleaned_from_def)
qed

lemma load_scenario: "load_dataset None scenario_files = Inr scenario_trips"
  by (simp add: load_dataset_def scenario_files_def clean_scenario)

text \<open>
  Claim C1. When the cleaner returns a table, every record of it has a duration strictly
  above 0 and at most 1440 minutes, and the durations of the table are, in order, exactly
  the computed durations of the admitted raw rows: a row whose duration is out of range
  is not in the table, and no duration is changed on the way. The same bounds hold for
  every record of a dataset combined from the source files.
\<close>

theorem cleaned_duration_in_range:
  "(clean_table rows = Inr ts \<longrightarrow>
      (\<forall>t \<in> set ts. 0 < trip_duration_minutes t \<and> trip_duration_minutes t \<le> 1440) \<and>
      map (\<lambda>t. Some (trip_duration_minutes t)) ts = map raw_minutes (filter admitted rows)) \<and>
   (load_dataset None files = Inr ds \<longrightarrow>
      (\<forall>t \<in> set ds. 0 < trip_duration_minutes t \<and> trip_duration_minutes t \<le> 1440))"
proof (intro conjI impI ballI)
  assume c: "clean_table rows = Inr ts"
  then have rel: "list_all2 cleaned_from (filter admitted rows) ts"
    by (rule clean_table_rel)
  show "map (\<lambda>t. Some (trip_duration_minutes t)) ts = map raw_minutes (filter admitted rows)"
    using rel by (rule list_all2_map_eq) (simp add: cleaned_from_def)
  fix t assume "t \<in> set ts"
  with c obtain r where "admitted r" and "cleaned_from r t"
    using clean_table_member by blast
  then show "0 < trip_duration_minutes t" and "trip_duration_minutes t \<le> 1440"
    by (rule cleaned_from_invariants)+
next
  fix t assume "load_dataset None files = Inr ds" and "t \<in> set ds"
  then obtain r where "admitted r" and "cleaned_from r t"
    using built_dataset_member by blast
  then show "0 < trip_duration_minutes t" and "trip_duration_minutes t \<le> 1440"
    by (rule cleaned_from_invariants)+
qed

theorem cleaned_duration_in_range_witness:
  "clean_table scenario_rows = Inr scenario_trips \<and>
   load_dataset None scenario_files = Inr scenario_trips \<and>
   list_all (\<lambda>t. 0 < trip_duration_minutes t \<and> trip_duration_minutes t \<le> 1440) scenario_trips \<and>
   map (\<lambda>t. Some (trip_duration_minutes t)) scenario_trips = [Some 10, Some 70] \<and>
   map raw_minutes scenario_rows = [Some 10, Some 70, Some 1500]"
proof -
  have h: "clean_table scenario_rows = Inr scenario_trips" by (rule clean_scenario)
  have r: "map raw_minutes scenario_rows = [Some 10, Some 70, Some 1500]"
    by (simp add: scenario_rows_def mk_raw_def raw_minutes_def duration_minutes_def ns_per_second_def)
  have d: "map (\<lambda>t. Some (trip_duration_minutes t)) scenario_trips = [Some 10, Some 70]"
    by (simp add: scenario_trips_def)
  from cleaned_duration_in_range [of scenario_rows scenario_trips scenario_files scenario_trips]
    h load_scenario r d
  show ?thesis by (simp add: list_all_iff)
qed

text \<open>
  Claim C2. When the cleaner returns a table, no record of it has a missing or empty start
  or end station name: each name is the raw name, or \<open>''Unknown''\<close> where the raw cell
  was missing or empty. So no record of a dataset combined from the source files has a
  missing or empty station name.
\<close>

theorem cleaned_station_names_present:
  "(clean_table rows = Inr ts \<longrightarrow>
      (\<forall>t \<in> set ts. \<not> is_missing_name (start_station_name t) \<and>
                     \<not> is_missing_name (end_station_name t)) \<and>
      map start_station_name ts =
        map (\<lambda>r. if is_missing_name (raw_start_station_name r) then Some ''Unknown''
                  else raw_start_station_name r) (filter admitted rows) \<and>
      map end_station_name ts =
        map (\<lambda>r. if is_missing_name (raw_end_station_name r) then Some ''Unknown''
                  else raw_end_station_name r) (filter admitted rows)) \<and>
   (load_dataset None files = Inr ds \<longrightarrow>
      (\<forall>t \<in> set ds. \<not> is_missing_name (start_station_name t) \<and>
                     \<not> is_missing_name (end_station_name t)))"
proof (intro conjI impI ballI)
  have norm: "replace_empty (fillna c) = (if is_missing_name c then Some ''Unknown'' else c)" for c
    by (cases c) (auto simp: replace_empty_def fillna_def is_missing_name_def)
  assume c: "clean_table rows = Inr ts"
  then have rel: "list_all2 cleaned_from (filter admitted rows) ts"
    by (rule clean_table_rel)
  show "map start_station_name ts =
           map (\<lambda>r. if is_missing_name (raw_start_station_name r) then Some ''Unknown''
                     else raw_start_station_name r) (filter admitted rows)"
    using rel by (rule list_all2_map_eq) (simp add: cleaned_from_def norm)
  show "map end_station_name ts =
           map (\<lambda>r. if is_missing_name (raw_end_station_name r) then Some ''Unknown''
                     else raw_end_station_name r) (filter admitted rows)"
    using rel by (rule list_all2_map_eq) (simp add: cleaned_from_def norm)
  fix t assume "t \<in> set ts"
  with c obtain r where "admitted r" and "cleaned_from r t"
    using clean_table_member by blast
  then show "\<not> is_missing_name (start_station_name t)"
    and "\<not> is_missing_name (end_station_name t)"
    by (rule cleaned_from_invariants)+
next
  fix t assume "load_dataset None files = Inr ds" and "t \<in> set ds"
  then obtain r where "admitted r" and "cleaned_from r t"
    using built_dataset_member by blast
  then show "\<not> is_missing_name (start_station_name t)"
    and "\<not> is_missing_name (end_station_name t)"
    by (rule cleaned_from_invariants)+
qed

theorem cleaned_station_names_present_witness:
  "clean_table scenario_rows = Inr scenario_trips \<and>
   load_dataset None scenario_files = Inr scenario_trips \<and>
   map raw_start_station_name (filter admitted scenario_rows) = [Some ''Clark St'', Some ''''] \<and>
   map start_station_name scenario_trips = [Some ''Clark St'', Some ''Unknown''] \<and>
   map raw_end_station_name (filter admitted scenario_rows) = [None, Some ''Clark St''] \<and>
   map end_station_name scenario_trips = [Some ''Unknown'', Some ''Clark St''] \<and>
   list_all (\<lambda>t. \<not> is_missing_name (start_station_name t) \<and>
                  \<not> is_missing_name (end_station_name t)) scenario_trips"
proof -
  have h: "clean_table scenario_rows = Inr scenario_trips" by (rule clean_scenario)
  have a: "map raw_start_station_name (filter admitted scenario_rows) = [Some ''Clark St'', Some '''']"
    "map raw_end_station_name (filter admitted scenario_rows) = [None, Some ''Clark St'']"
    by (simp_all add: admitted_scenario) (simp_all add: scenario_rows_def mk_raw_def)
  have b: "map start_station_name scenario_trips = [Some ''Clark St'', Some ''Unknown'']"
    "map end_station_name scenario_trips = [Some ''Unknown'', Some ''Clark St'']"
    by (simp_all add: scenario_trips_def)
  from cleaned_station_names_present [of scenario_rows scenario_trips scenario_files scenario_trips]
    h load_scenario a b
  show ?thesis by (simp add: list_all_iff)
qed

text \<open>
  Claim C9, as stated, fails: the cleaner never looks at the user category to admit a
  row. Two rows whose category is \<open>''Subscriber''\<close> and missing are both admitted, with
  the category unchanged.
\<close>

theorem category_not_validated_counterexample:
  "clean_table legacy_rows = Inr legacy_trips \<and>
   map member_casual legacy_trips = [Some ''Subscriber'', None]"
  by (simp add: clean_table_def legacy_rows_def legacy_trips_def mk_raw_def dropna_def
      with_duration_def duration_minutes_def ns_per_second_def standardize_stations_def
      add_membership_indicator_def fillna_def replace_empty_def)

text \<open>
  Claim C9, amended. The cleaner copies the user category of every admitted row
  unchanged, whatever it is, and the membership indicator is a function of it: 1 when the
  category is \<open>''member''\<close>, 0 otherwise (also when it is missing). The indicator is that
  function of the category in every record of a dataset combined from the source files.
\<close>

theorem membership_indicator_of_category:
  "(clean_table rows = Inr ts \<longrightarrow>
      map member_casual ts = map raw_member_casual (filter admitted rows) \<and>
      (\<forall>t \<in> set ts. membership_indicator t =
                       (if member_casual t = Some ''member'' then 1 else 0))) \<and>
   (load_dataset None files = Inr ds \<longrightarrow>
      (\<forall>t \<in> set ds. membership_indicator t =
                       (if member_casual t = Some ''member'' then 1 else 0)))"
proof (intro conjI impI ballI)
  assume c: "clean_table rows = Inr ts"
  then have rel: "list_all2 cleaned_from (filter admitted rows) ts"
    by (rule clean_table_rel)
  show "map member_casual ts = map raw_member_casual (filter admitted rows)"
    using rel by (rule list_all2_map_eq) (simp add: cleaned_from_def)
  fix t assume "t \<in> set ts"
  with c obtain r where "admitted r" and "cleaned_from r t"
    using clean_table_member by blast
  then show "membership_indicator t = (if member_casual t = Some ''member'' then 1 else 0)"
    by (rule cleaned_from_invariants)
next
  fix t assume "load_dataset None files = Inr ds" and "t \<in> set ds"
  then obtain r where "admitted r" and "cleaned_from r t"
    using built_dataset_member by blast
  then show "membership_indicator t = (if member_casual t = Some ''member'' then 1 else 0)"
    by (rule cleaned_from_invariants)
qed

theorem membership_indicator_of_category_witness:
  "clean_table scenario_rows = Inr scenario_trips \<and>
   load_dataset None scenario_files = Inr scenario_trips \<and>
   map member_casual scenario_trips = [Some ''member'', Some ''casual''] \<and>
   map raw_member_casual (filter admitted scenario_rows) = [Some ''member'', Some ''casual''] \<and>
   map membership_indicator scenario_trips = [1, 0] \<and>
   list_all (\<lambda>t. membership_indicator t = (if member_casual t = Some ''member'' then 1 else 0))
     scenario_trips"
proof -
  have h: "clean_table scenario_rows = Inr scenario_trips" by (rule clean_scenario)
  have a: "map member_casual scenario_trips = [Some ''member'', Some ''casual'']"
    "map membership_indicator scenario_trips = [1, 0]"
    by (simp_all add: scenario_trips_def)
  have m: "map raw_member_casual (filter admitted scenario_rows)
           = [Some ''member'', Some ''casual'']"
    by (simp add: admitted_scenario) (simp add: scenario_rows_def mk_raw_def)
  from membership_indicator_of_category [of scenario_rows scenario_trips scenario_files scenario_trips]
    h load_scenario a m
  show ?thesis by (simp add: list_all_iff)
qed

text \<open>
  Claim C8. On a dataset that is not empty, both scripts compute the satisfaction rate
  as 100 times the number of trips whose duration is in the closed interval from 5 to 60
  minutes, divided by the number of trips (on an empty one both raise). The three raw
  rows with durations 10, 70 and 1500 minutes clean to two records, with a rate of 50.
\<close>

theorem satisfaction_rate_formula:
  "(ds \<noteq> [] \<longrightarrow>
      user_satisfaction_rate ds =
        Inr (100 * of_nat (card {i. i < length ds \<and> 5 \<le> trip_duration_minutes (ds ! i) \<and>
                                     trip_duration_minutes (ds ! i) \<le> 60})
             / of_nat (length ds)) \<and>
      satisfaction_rate ds = user_satisfaction_rate ds) \<and>
   (ds = [] \<longrightarrow> user_satisfaction_rate ds = Inl ZeroDivisionError \<and>
                 satisfaction_rate ds = Inl ZeroDivisionError) \<and>
   clean_table scenario_rows = Inr scenario_trips \<and>
   length scenario_rows = 3 \<and>
   map raw_minutes scenario_rows = [Some 10, Some 70, Some 1500] \<and>
   length scenario_trips = 2 \<and>
   user_satisfaction_rate scenario_trips = Inr 50 \<and>
   satisfaction_rate scenario_trips = Inr 50"
proof -
  have gen: "user_satisfaction_rate ds =
        Inr (100 * of_nat (card {i. i < length ds \<and> 5 \<le> trip_duration_minutes (ds ! i) \<and>
                                     trip_duration_minutes (ds ! i) \<le> 60})
             / of_nat (length ds))" if "ds \<noteq> []"
    using that
    by (simp add: user_satisfaction_rate_def optimal_duration_trips_def total_trips_def
        py_div_def length_filter_conv_card)
  have same: "satisfaction_rate xs = user_satisfaction_rate xs" for xs
    by (simp add: user_satisfaction_rate_def satisfaction_rate_def optimal_duration_trips_def
        optimal_trips_def)
  have empty: "user_satisfaction_rate [] = Inl ZeroDivisionError"
    by (simp add: user_satisfaction_rate_def total_trips_def py_div_def)
  have r: "map raw_minutes scenario_rows = [Some 10, Some 70, Some 1500]"
    by (simp add: scenario_rows_def mk_raw_def raw_minutes_def duration_minutes_def ns_per_second_def)
  have s: "user_satisfaction_rate scenario_trips = Inr 50"
    by (simp add: user_satisfaction_rate_def optimal_duration_trips_def total_trips_def
        py_div_def scenario_trips_def)
  have n: "length scenario_rows = 3" "length scenario_trips = 2"
    by (simp_all add: scenario_rows_def scenario_trips_def)
  have s': "satisfaction_rate scenario_trips = Inr 50"
    using s by (simp only: same)
  have empty': "satisfaction_rate [] = Inl ZeroDivisionError"
    using empty by (simp only: same)
  have g1: "ds \<noteq> [] \<longrightarrow>
      user_satisfaction_rate ds =
        Inr (100 * of_nat (card {i. i < length ds \<and> 5 \<le> trip_duration_minutes (ds ! i) \<and>
                                     trip_duration_minutes (ds ! i) \<le> 60})
             / of_nat (length ds)) \<and>
      satisfaction_rate ds = user_satisfaction_rate ds"
    using gen same by blast
  have g2: "ds = [] \<longrightarrow> user_satisfaction_rate ds = Inl ZeroDivisionError \<and>
                 satisfaction_rate ds = Inl ZeroDivisionError"
    using empty empty' by blast
  from g1 g2 clean_scenario n r s s' show ?thesis by blast
qed

theorem satisfaction_rate_formula_witness:
  "scenario_trips \<noteq> [] \<and>
   user_satisfaction_rate scenario_trips =
        Inr (100 * of_nat (card {i. i < length scenario_trips \<and>
                 5 \<le> trip_duration_minutes (scenario_trips ! i) \<and>
                 trip_duration_minutes (scenario_trips ! i) \<le> 60})
             / of_nat (length scenario_trips)) \<and>
   satisfaction_rate scenario_trips = Inr 50"
proof -
  have ne: "scenario_trips \<noteq> []" by (simp add: scenario_trips_def)
  from satisfaction_rate_formula [of scenario_trips] ne show ?thesis by blast
qed

subsection \<open>Grouping partitions the rows\<close>

lemma sum_list_insort_key:
  "sum_list (map f (insort_key g x xs)) = f x + sum_list (map (f :: 'a \<Rightarrow> nat) xs)"
  by (induction xs) auto

lemma sum_list_sort_key:
  "sum_list (map f (sort_key g xs)) = sum_list (map (f :: 'a \<Rightarrow> nat) xs)"
  by (induction xs) (auto simp: sum_list_insort_key)

lemma length_filter_key_count:
  "length (filter (\<lambda>r. key r = k) ds) = count_list (map key ds) k"
  by (induction ds) auto

lemma group_sizes_sum:
  "sum_list (map (\<lambda>k. length (filter (\<lambda>r. key r = k) ds)) (remdups (map key ds))) = length ds"
proof -
  have "sum_list (map (\<lambda>k. length (filter (\<lambda>r. key r = k) ds)) (remdups (map key ds)))
        = sum (count_list (map key ds)) (set (map key ds))"
    by (simp add: sum_list_distinct_conv_sum_set length_filter_key_count)
  also have "\<dots> = length (map key ds)"
    by (rule sum_count_set) auto
  finally show ?thesis by simp
qed

lemma groupby_agg_counts:
  assumes "\<forall>r \<in> set ds. ride_id r \<noteq> None"
  shows "sum_list (map row_total_trips (groupby_agg key ds)) = length ds"
proof -
  have "row_total_trips (agg k (filter (\<lambda>r. key r = k) ds))
        = length (filter (\<lambda>r. key r = k) ds)" for k
  proof -
    have "filter (\<lambda>r. ride_id r \<noteq> None) (filter (\<lambda>r. key r = k) ds) = filter (\<lambda>r. key r = k) ds"
      using assms by (intro filter_True) simp
    then show ?thesis by (simp add: agg_def)
  qed
  then have "map row_total_trips (groupby_agg key ds)
             = map (\<lambda>k. length (filter (\<lambda>r. key r = k) ds)) (sort (remdups (map key ds)))"
    by (simp add: groupby_agg_def comp_def)
  then show ?thesis
    by (simp add: sum_list_sort_key group_sizes_sum)
qed

lemma daily_data_counts:
  assumes "\<forall>r \<in> set ds. ride_id r \<noteq> None"
  shows "sum_list (map row_total_trips (daily_data ds)) = total_trips ds"
  using groupby_agg_counts [OF assms, of day_of_week]
  by (simp add: daily_data_def total_trips_def sum_list_sort_key)

text \<open>
  Claim C10. The trip counts of the day-of-week table add up to the number of records
  of the dataset, on every dataset in which each record has its ride identifier (the
  count of a group is the count of its identifiers), and so on every dataset combined
  from the source files, since the cleaner admits no row without one.
\<close>

theorem daily_counts_sum_to_total:
  "((\<forall>r \<in> set ds. ride_id r \<noteq> None) \<longrightarrow>
      sum_list (map row_total_trips (daily_data ds)) = total_trips ds) \<and>
   (load_dataset None files = Inr built \<longrightarrow>
      sum_list (map row_total_trips (daily_data built)) = total_trips built)"
proof (intro conjI impI)
  assume "\<forall>r \<in> set ds. ride_id r \<noteq> None"
  then show "sum_list (map row_total_trips (daily_data ds)) = total_trips ds"
    by (rule daily_data_counts)
next
  assume l: "load_dataset None files = Inr built"
  have "\<forall>t \<in> set built. ride_id t \<noteq> None"
  proof
    fix t assume "t \<in> set built"
    with l obtain r where "admitted r" and "cleaned_from r t"
      using built_dataset_member by blast
    then show "ride_id t \<noteq> None"
      by (rule cleaned_from_invariants)
  qed
  then show "sum_list (map row_total_trips (daily_data built)) = total_trips built"
    by (rule daily_data_counts)
qed

lemma day_of_week_scenario: "map day_of_week scenario_trips = [''Thursday'', ''Thursday'']"
  by (simp add: scenario_trips_def day_of_week_def day_order_def ns_per_day_def ns_per_second_def)

theorem daily_counts_sum_to_total_witness:
  "list_all (\<lambda>r. ride_id r \<noteq> None) scenario_trips \<and>
   load_dataset None scenario_files = Inr scenario_trips \<and>
   sum_list (map row_total_trips (daily_data scenario_trips)) = 2 \<and>
   total_trips scenario_trips = 2"
proof -
  have h: "\<forall>r \<in> set scenario_trips. ride_id r \<noteq> None"
    by (simp add: scenario_trips_def)
  have n: "total_trips scenario_trips = 2"
    by (simp add: scenario_trips_def total_trips_def)
  from daily_counts_sum_to_total [of scenario_trips scenario_files scenario_trips]
    h load_scenario n
  show ?thesis by (simp add: list_all_iff)
qed

subsection \<open>Loading and the exit status\<close>

lemma processed_dataframes_empty:
  "(processed_dataframes files = []) = list_all (\<lambda>f. isl (process_file f)) files"
  by (induction files) (auto split: sum.splits)

text \<open>
  Claim C7, as stated, fails in its ``only if'' half. With no cache, one unreadable
  file and one file holding a single valid row, one table is processed, so line 134 is not
  reached; the dataset has one record, the analysis period of line 188 is zero, line 189
  raises \<^verbatim>\<open>ZeroDivisionError\<close>, nothing catches it, and the process ends with status 1.
\<close>

theorem exit_after_loading_counterexample:
  "length (processed_dataframes single_file) = 1 \<and>
   analysis_script None single_file = Inl 1"
  by (simp add: single_file_def analysis_script_def load_dataset_def clean_table_def mk_raw_def
      dropna_def with_duration_def duration_minutes_def ns_per_second_def
      standardize_stations_def add_membership_indicator_def fillna_def replace_empty_def
      analysis_kpis_def daily_trip_efficiency_def analysis_period_days_def start_span_def
      div_by_float_def py_div_def total_trips_def)

text \<open>
  Claim C7, amended. Loading ends the run with \<^verbatim>\<open>exit(1)\<close> exactly when there is no
  cache and every source file failed; in every other case (a cache, or at least one file
  processed, whatever happened to the others) it hands a dataset on, and with a cache that
  dataset is the cache. Up to the end of the KPI section the process ends only with
  status 1, either by that exit or by an exception of a KPI that nothing catches.
\<close>

theorem exit_when_nothing_processed:
  "(load_dataset cache files = Inl n) =
     (n = 1 \<and> cache = None \<and> list_all (\<lambda>f. isl (process_file f)) files) \<and>
   (\<exists>ds. load_dataset cache files = Inr ds) =
     (\<not> (cache = None \<and> list_all (\<lambda>f. isl (process_file f)) files)) \<and>
   load_dataset (Some cached) files = Inr cached \<and>
   (analysis_script cache files = Inl n) =
     (n = 1 \<and> (load_dataset cache files = Inl 1 \<or>
                (\<exists>ds err. load_dataset cache files = Inr ds \<and> analysis_kpis ds = Inl err)))"
proof -
  have e: "(processed_dataframes files = []) = list_all (\<lambda>f. isl (process_file f)) files"
    by (rule processed_dataframes_empty)
  have a: "(load_dataset cache files = Inl n) =
     (n = 1 \<and> cache = None \<and> list_all (\<lambda>f. isl (process_file f)) files)"
    by (cases cache) (auto simp: load_dataset_def e [symmetric])
  have b: "(\<exists>ds. load_dataset cache files = Inr ds) =
     (\<not> (cache = None \<and> list_all (\<lambda>f. isl (process_file f)) files))"
    by (cases cache) (auto simp: load_dataset_def e [symmetric])
  have c: "load_dataset (Some cached) files = Inr cached"
    by (simp add: load_dataset_def)
  have d: "(analysis_script cache files = Inl n) =
     (n = 1 \<and> (load_dataset cache files = Inl 1 \<or>
                (\<exists>ds err. load_dataset cache files = Inr ds \<and> analysis_kpis ds = Inl err)))"
    using a by (auto simp: analysis_script_def split: sum.splits)
  from a b c d show ?thesis by blast
qed

subsection \<open>Daily efficiency\<close>

lemma start_span_nonneg:
  assumes "start_span ds = Some d"
  shows "0 \<le> d"
proof -
  have ne: "ds \<noteq> []" and d: "d = Max (set (map started_at ds)) - Min (set (map started_at ds))"
    using assms by (auto simp: start_span_def split: if_splits)
  obtain x where x: "x \<in> set (map started_at ds)"
    using ne by (cases ds) auto
  have "Min (set (map started_at ds)) \<le> x" "x \<le> Max (set (map started_at ds))"
    using x by simp_all
  then have "Min (set (map started_at ds)) \<le> Max (set (map started_at ds))"
    by (rule order_trans)
  with d show ?thesis by simp
qed

lemma ns_per_day_pos: "0 < ns_per_day"
  by (simp add: ns_per_day_def ns_per_second_def)

lemma period_in_days:
  "of_int d / of_int ns_per_second / (24 * 3600) = (of_int d / of_int ns_per_day :: rat)"
  by (simp add: ns_per_day_def ns_per_second_def)

lemma daily_trip_efficiency_value:
  assumes "start_span ds = Some d"
  shows "daily_trip_efficiency ds =
           (if d = 0 then Inl ZeroDivisionError
            else Inr (Num (of_nat (length ds) / (of_int d / of_int ns_per_day))))"
proof -
  have p: "analysis_period_days ds = Num (of_int d / of_int ns_per_day)"
    by (simp only: analysis_period_days_def assms option.case period_in_days)
  have z: "((of_int d / of_int ns_per_day :: rat) = 0) = (d = 0)"
    using ns_per_day_pos by simp
  show ?thesis
    by (simp add: daily_trip_efficiency_def p div_by_float_def py_div_def total_trips_def z
        del: of_int_eq_0_iff divide_eq_0_iff)
qed

lemma daily_efficiency_value:
  assumes "start_span ds = Some d"
  shows "daily_efficiency ds =
           (if d div ns_per_day = 0 then Inl ZeroDivisionError
            else Inr (Num (of_nat (length ds) / of_int (d div ns_per_day))))"
  using assms
  by (simp add: daily_efficiency_def date_range_def div_by_float_def py_div_def total_trips_def)

lemma whole_days_quotient:
  assumes "0 < (D::int)"
  shows "((of_int (d div D) :: rat) = of_int d / of_int D) = (d mod D = 0)"
proof -
  have "((of_int (d div D) :: rat) = of_int d / of_int D) = ((of_int (d div D * D) :: rat) = of_int d)"
    using assms by (simp add: field_simps)
  also have "\<dots> = (d div D * D = d)"
    by (simp only: of_int_eq_iff)
  also have "\<dots> = (d mod D = 0)"
    unfolding minus_div_mult_eq_mod [symmetric] by auto
  finally show ?thesis .
qed

text \<open>
  Claim C4, amended. On a dataset that is not empty, with \<open>d\<close> the span in nanoseconds
  between its earliest and latest start: the analysis script divides the number of trips
  by the exact number of days \<open>d / ns_per_day\<close> and raises when the span is zero; the
  export script divides by the whole days \<open>d div ns_per_day\<close> and raises when the span
  is shorter than a day; the two results are the same exactly when the span is a whole
  number of days.
\<close>

theorem daily_efficiency_agreement:
  assumes "start_span ds = Some d"
  shows "daily_trip_efficiency ds =
           (if d = 0 then Inl ZeroDivisionError
            else Inr (Num (of_nat (length ds) / (of_int d / of_int ns_per_day)))) \<and>
         daily_efficiency ds =
           (if d div ns_per_day = 0 then Inl ZeroDivisionError
            else Inr (Num (of_nat (length ds) / of_int (d div ns_per_day)))) \<and>
         (daily_efficiency ds = daily_trip_efficiency ds) = (d mod ns_per_day = 0)"
proof -
  note a = daily_trip_efficiency_value [OF assms]
  note e = daily_efficiency_value [OF assms]
  have ne: "ds \<noteq> []" using assms by (auto simp: start_span_def split: if_splits)
  then have n: "(of_nat (length ds) :: rat) \<noteq> 0" by simp
  have d0: "0 \<le> d" using assms by (rule start_span_nonneg)
  note D = ns_per_day_pos
  have q: "((of_int (d div ns_per_day) :: rat) = of_int d / of_int ns_per_day) = (d mod ns_per_day = 0)"
    using D by (rule whole_days_quotient)
  have "(daily_efficiency ds = daily_trip_efficiency ds) = (d mod ns_per_day = 0)"
  proof (cases "d = 0")
    case True
    then show ?thesis by (simp add: a e)
  next
    case dpos: False
    show ?thesis
    proof (cases "d div ns_per_day = 0")
      case True
      then have "d mod ns_per_day = d"
        unfolding minus_div_mult_eq_mod [symmetric] by simp
      with dpos True show ?thesis by (simp add: a e)
    next
      case False
      have "(daily_efficiency ds = daily_trip_efficiency ds)
            = (of_nat (length ds) / of_int (d div ns_per_day)
               = (of_nat (length ds) / (of_int d / of_int ns_per_day) :: rat))"
        using dpos False by (simp add: a e)
      also have "\<dots> = ((of_int (d div ns_per_day) :: rat) = of_int d / of_int ns_per_day)"
        using n dpos False D by (auto simp: field_simps)
      finally show ?thesis using q by simp
    qed
  qed
  with a e show ?thesis by simp
qed

text \<open>
  Claim C4, as stated, fails: three trips over a day and a half give 2 trips a day in
  the analysis script and 3 trips a day in the export script.
\<close>

theorem daily_efficiency_differs_counterexample:
  "daily_trip_efficiency day_and_a_half = Inr (Num 2) \<and>
   daily_efficiency day_and_a_half = Inr (Num 3)"
  by (simp add: day_and_a_half_def mk_trip_def daily_trip_efficiency_def daily_efficiency_def
      analysis_period_days_def date_range_def start_span_def div_by_float_def py_div_def
      total_trips_def ns_per_day_def ns_per_second_def)

theorem daily_efficiency_agreement_witness:
  "start_span day_and_a_half = Some 129600000000000 \<and>
   daily_trip_efficiency day_and_a_half = Inr (Num 2) \<and>
   daily_efficiency day_and_a_half = Inr (Num 3) \<and>
   (129600000000000 mod ns_per_day = 0) = False \<and>
   (daily_efficiency day_and_a_half = daily_trip_efficiency day_and_a_half) = False"
proof -
  have h: "start_span day_and_a_half = Some 129600000000000"
    by (simp add: day_and_a_half_def mk_trip_def start_span_def)
  have m: "(129600000000000 mod ns_per_day = 0) = False"
    by (simp add: ns_per_day_def ns_per_second_def)
  have l: "length day_and_a_half = 3" by (simp add: day_and_a_half_def)
  have nd: "ns_per_day = 86400000000000"
    by (simp add: ns_per_day_def ns_per_second_def)
  from daily_efficiency_agreement [OF h] h m show ?thesis
    by (simp add: l nd)
qed

subsection \<open>Station efficiency\<close>

lemma present_simps [simp]:
  "present [] = []"
  "present (None # cs) = present cs"
  "present (Some c # cs) = c # present cs"
  by (simp_all add: present_def)

lemma set_present: "set (present col) = {s. Some s \<in> set col}"
  by (induction col) (auto split: option.splits simp: present_def)

lemma present_not_unknown:
  "present (map col (not_unknown col ds)) = filter (\<lambda>s. s \<noteq> ''Unknown'') (present (map col ds))"
proof (induction ds)
  case Nil
  then show ?case by (simp add: not_unknown_def)
next
  case (Cons r ds)
  then show ?case by (cases "col r") (auto simp: not_unknown_def)
qed

lemma count_present:
  "length (filter (\<lambda>c. c = Some k) col) = count_list (present col) k"
proof (induction col)
  case Nil
  then show ?case by simp
next
  case (Cons c col)
  then show ?case by (cases c) auto
qed

lemma groupby_size_sum:
  "sum_list (map snd (groupby_size col)) = length (present col)"
proof -
  have "sum_list (map snd (groupby_size col))
        = sum_list (map (count_list (present col)) (remdups (present col)))"
    by (simp add: groupby_size_def comp_def count_present sum_list_sort_key)
  also have "\<dots> = sum (count_list (present col)) (set (present col))"
    by (simp add: sum_list_distinct_conv_sum_set)
  also have "\<dots> = length (present col)"
    by (rule sum_count_set) auto
  finally show ?thesis .
qed

lemma length_groupby_size: "length (groupby_size col) = nunique col"
  by (simp add: groupby_size_def nunique_def)

lemma nunique_card: "nunique col = card (set (present col))"
  by (simp add: nunique_def length_remdups_card_conv)

lemma real_stations_card: "real_stations ds = card (real_start_names ds)"
proof -
  have "set (filter (\<lambda>s. s \<noteq> ''Unknown'') (present (map start_station_name ds)))
        = real_start_names ds"
    by (auto simp: real_start_names_def)
  then show ?thesis
    by (simp add: real_stations_def nunique_card present_not_unknown)
qed

lemma real_start_trips:
  "length (present (map start_station_name (not_unknown start_station_name ds)))
   = length (filter has_real_start ds)"
proof (induction ds)
  case Nil
  then show ?case by (simp add: not_unknown_def)
next
  case (Cons r ds)
  then show ?case
    by (cases "start_station_name r") (auto simp: not_unknown_def has_real_start_def)
qed

lemma sum_list_of_nat:
  "sum_list (map (\<lambda>kc. of_nat (snd kc)) xs) = (of_nat (sum_list (map snd xs)) :: rat)"
  by (induction xs) auto

lemma average_station_efficiency_value:
  "average_station_efficiency ds =
     (if card (real_start_names ds) = 0 then NaN
      else Num (of_nat (length (filter has_real_start ds)) / of_nat (card (real_start_names ds))))"
proof -
  let ?g = "station_utilization_data ds"
  have len: "length ?g = card (real_start_names ds)"
    using real_stations_card [of ds]
    by (simp add: station_utilization_data_def length_groupby_size real_stations_def)
  have sum: "sum_list (map snd ?g) = length (filter has_real_start ds)"
    by (simp add: station_utilization_data_def groupby_size_sum real_start_trips)
  have "(map (\<lambda>kc. of_nat (snd kc) :: rat) ?g = []) = (card (real_start_names ds) = 0)"
    using len by (metis length_0_conv length_map)
  then show ?thesis
    by (simp add: average_station_efficiency_def series_mean_def sum_list_of_nat sum len)
qed

lemma station_efficiency_value:
  "station_efficiency ds =
     (if card (real_start_names ds) = 0 then Inl ZeroDivisionError
      else Inr (of_nat (length ds) / of_nat (card (real_start_names ds))))"
  by (simp add: station_efficiency_def py_div_def real_stations_card total_trips_def)

lemma length_filter_all:
  "(length (filter P xs) = length xs) = (\<forall>x \<in> set xs. P x)"
proof (induction xs)
  case Nil
  then show ?case by simp
next
  case (Cons x xs)
  have "length (filter P xs) \<noteq> Suc (length xs)"
    using length_filter_le [of P xs] by linarith
  with Cons show ?case by auto
qed

text \<open>
  Claim C3, amended. With \<open>real_start_names ds\<close> the set of start station names of the
  dataset other than \<open>''Unknown''\<close>: the export script's station efficiency is the
  number of all trips divided by the number of those names (and raises when there is
  none); the analysis script's average station efficiency is the number of trips that
  start at one of those names divided by the number of those names (and is NaN when there
  is none). When there is at least one such name, the two are the same number exactly
  when every trip of the dataset starts at a known station.
\<close>

theorem station_efficiency_formulas:
  "station_efficiency ds =
     (if card (real_start_names ds) = 0 then Inl ZeroDivisionError
      else Inr (of_nat (total_trips ds) / of_nat (card (real_start_names ds)))) \<and>
   average_station_efficiency ds =
     (if card (real_start_names ds) = 0 then NaN
      else Num (of_nat (length (filter has_real_start ds)) / of_nat (card (real_start_names ds)))) \<and>
   (0 < card (real_start_names ds) \<longrightarrow>
      (Inr (average_station_efficiency ds) = map_sum id Num (station_efficiency ds))
        = (\<forall>r \<in> set ds. has_real_start r))"
proof -
  note s = station_efficiency_value [of ds]
  note a = average_station_efficiency_value [of ds]
  have "(Inr (average_station_efficiency ds) = map_sum id Num (station_efficiency ds))
        = (\<forall>r \<in> set ds. has_real_start r)" if pos: "0 < card (real_start_names ds)"
  proof -
    have nz: "(of_nat (card (real_start_names ds)) :: rat) \<noteq> 0"
      using pos by simp
    have "(Inr (average_station_efficiency ds) = map_sum id Num (station_efficiency ds))
          = ((of_nat (length (filter has_real_start ds)) :: rat) = of_nat (length ds))"
      using pos nz by (simp add: s a)
    also have "\<dots> = (length (filter has_real_start ds) = length ds)"
      by (simp only: of_nat_eq_iff)
    finally show ?thesis by (simp only: length_filter_all)
  qed
  with s a show ?thesis by (simp add: total_trips_def)
qed

text \<open>
  Claim C3, as stated, fails for the analysis script: with one trip from a known
  station and, a day later, one from \<open>''Unknown''\<close>, the total divided by the number of
  known stations is 2, which is what the export script gives, and the analysis script's
  KPIs are 2 trips a day, 1 trip per station, and a satisfaction rate of 100.
\<close>

theorem station_efficiency_differs_counterexample:
  "total_trips mixed_starts = 2 \<and>
   real_stations mixed_starts = 1 \<and>
   station_efficiency mixed_starts = Inr 2 \<and>
   average_station_efficiency mixed_starts = Num 1 \<and>
   analysis_kpis mixed_starts = Inr (Num 2, Num 1, 100)"
  by (simp add: mixed_starts_def mk_trip_def total_trips_def real_stations_def nunique_def
      not_unknown_def station_efficiency_def py_div_def average_station_efficiency_def
      station_utilization_data_def groupby_size_def series_mean_def analysis_kpis_def
      daily_trip_efficiency_def analysis_period_days_def start_span_def div_by_float_def
      ns_per_second_def user_satisfaction_rate_def optimal_duration_trips_def)

theorem station_efficiency_formulas_witness:
  "card (real_start_names scenario_trips) = 1 \<and>
   station_efficiency scenario_trips = Inr 2 \<and>
   average_station_efficiency scenario_trips = Num 1 \<and>
   list_all has_real_start scenario_trips = False"
proof -
  have c: "card (real_start_names scenario_trips) = 1"
    by (simp add: real_start_names_def scenario_trips_def)
  have n: "total_trips scenario_trips = 2" "length (filter has_real_start scenario_trips) = 1"
    "list_all has_real_start scenario_trips = False"
    by (simp_all add: scenario_trips_def total_trips_def has_real_start_def)
  from station_efficiency_formulas [of scenario_trips] show ?thesis
    by (simp add: c n)
qed

subsection \<open>Top station tables\<close>

lemma set_first_appearance: "set (first_appearance xs) = set xs"
  by (simp add: first_appearance_def)

lemma distinct_first_appearance: "distinct (first_appearance xs)"
  by (simp add: first_appearance_def)

lemma first_appearance_example:
  "first_appearance [''B'', ''A'', ''B'', ''A'', ''C''] = [''B'', ''A'', ''C'']"
  by (simp add: first_appearance_def)

lemma value_counts_ties:
  "value_counts [Some ''A'', Some ''B'', Some ''B'', Some ''A'', Some ''C'']
   = [(''A'', 2), (''B'', 2), (''C'', 1)]"
  by (simp add: value_counts_def first_appearance_def)

lemma value_counts_member:
  assumes "kc \<in> set (value_counts col)"
  shows "fst kc \<in> set (present col) \<and> snd kc = length (filter (\<lambda>c. c = Some (fst kc)) col)"
  using assms by (auto simp: value_counts_def set_first_appearance)

lemma count_not_unknown:
  assumes "k \<noteq> ''Unknown''"
  shows "length (filter (\<lambda>c. c = Some k) (map col (not_unknown col ds)))
         = length (filter (\<lambda>r. col r = Some k) ds)"
proof -
  have "filter (\<lambda>r. col r = Some k) (not_unknown col ds) = filter (\<lambda>r. col r = Some k) ds"
    unfolding not_unknown_def filter_filter
    using assms by (intro filter_cong) auto
  then show ?thesis
    by (simp add: filter_map comp_def)
qed

lemma real_top_member:
  assumes "kc \<in> set (take n (value_counts (map col (not_unknown col ds))))"
  shows "fst kc \<noteq> ''Unknown'' \<and> snd kc = length (filter (\<lambda>r. col r = Some (fst kc)) ds)"
proof -
  have m: "kc \<in> set (value_counts (map col (not_unknown col ds)))"
    using assms by (rule in_set_takeD)
  note v = value_counts_member [OF m]
  from v have k: "fst kc \<noteq> ''Unknown''"
    by (simp add: present_not_unknown)
  from v have "snd kc = length (filter (\<lambda>c. c = Some (fst kc)) (map col (not_unknown col ds)))"
    by blast
  also have "\<dots> = length (filter (\<lambda>r. col r = Some (fst kc)) ds)"
    using k by (rule count_not_unknown)
  finally show ?thesis using k by blast
qed

lemma top_stations_member:
  assumes "row \<in> set (top_stations col ds)"
  shows "station_total_trips row = length (filter (\<lambda>r. col r = Some (station_name row)) ds) \<and>
         0 < total_trips ds \<and>
         percentage row = 100 * of_nat (station_total_trips row) / of_nat (total_trips ds)"
proof -
  obtain kc where kc: "kc \<in> set (take 20 (value_counts (map col ds)))"
    and row: "row = \<lparr>station_name = fst kc, station_total_trips = snd kc,
                     percentage = (of_nat (snd kc) / of_nat (total_trips ds)) * 100\<rparr>"
    using assms by (auto simp: top_stations_def)
  have m: "kc \<in> set (value_counts (map col ds))"
    using kc by (rule in_set_takeD)
  note v = value_counts_member [OF m]
  from v have "ds \<noteq> []" by (auto simp: set_present)
  then have pos: "0 < total_trips ds" by (simp add: total_trips_def)
  from v have "snd kc = length (filter (\<lambda>r. col r = Some (fst kc)) ds)"
    by (simp add: filter_map comp_def)
  with row pos show ?thesis by simp
qed

text \<open>
  What the tables hold on every dataset. Every row of the analysis script's top-10
  tables (start and end) names a station other than \<open>''Unknown''\<close>, with the number of
  trips of the whole dataset at that station. Every row of the export script's top-20
  tables carries the number of trips of the whole dataset with that station name, and its
  percentage is 100 times that number divided by the number of all trips of the dataset
  (which is not zero when the table has a row), not by a sum over the listed rows.
\<close>

lemma top_station_tables:
  "(\<forall>kc \<in> set (real_stations_start ds).
      fst kc \<noteq> ''Unknown'' \<and>
      snd kc = length (filter (\<lambda>r. start_station_name r = Some (fst kc)) ds)) \<and>
   (\<forall>kc \<in> set (real_stations_end ds).
      fst kc \<noteq> ''Unknown'' \<and>
      snd kc = length (filter (\<lambda>r. end_station_name r = Some (fst kc)) ds)) \<and>
   length (real_stations_start ds) \<le> 10 \<and> length (real_stations_end ds) \<le> 10 \<and>
   (\<forall>row \<in> set (start_stations ds).
      station_total_trips row =
        length (filter (\<lambda>r. start_station_name r = Some (station_name row)) ds) \<and>
      0 < total_trips ds \<and>
      percentage row = 100 * of_nat (station_total_trips row) / of_nat (total_trips ds)) \<and>
   (\<forall>row \<in> set (end_stations ds).
      station_total_trips row =
        length (filter (\<lambda>r. end_station_name r = Some (station_name row)) ds) \<and>
      0 < total_trips ds \<and>
      percentage row = 100 * of_nat (station_total_trips row) / of_nat (total_trips ds)) \<and>
   length (start_stations ds) \<le> 20 \<and> length (end_stations ds) \<le> 20"
proof -
  have a: "\<forall>kc \<in> set (real_stations_start ds).
      fst kc \<noteq> ''Unknown'' \<and>
      snd kc = length (filter (\<lambda>r. start_station_name r = Some (fst kc)) ds)"
    unfolding real_stations_start_def by (blast dest: real_top_member)
  have b: "\<forall>kc \<in> set (real_stations_end ds).
      fst kc \<noteq> ''Unknown'' \<and>
      snd kc = length (filter (\<lambda>r. end_station_name r = Some (fst kc)) ds)"
    unfolding real_stations_end_def by (blast dest: real_top_member)
  have c: "length (real_stations_start ds) \<le> 10" "length (real_stations_end ds) \<le> 10"
    by (simp_all add: real_stations_start_def real_stations_end_def)
  have d: "\<forall>row \<in> set (start_stations ds).
      station_total_trips row =
        length (filter (\<lambda>r. start_station_name r = Some (station_name row)) ds) \<and>
      0 < total_trips ds \<and>
      percentage row = 100 * of_nat (station_total_trips row) / of_nat (total_trips ds)"
    unfolding start_stations_def by (blast dest: top_stations_member)
  have e: "\<forall>row \<in> set (end_stations ds).
      station_total_trips row =
        length (filter (\<lambda>r. end_station_name r = Some (station_name row)) ds) \<and>
      0 < total_trips ds \<and>
      percentage row = 100 * of_nat (station_total_trips row) / of_nat (total_trips ds)"
    unfolding end_stations_def by (blast dest: top_stations_member)
  have f: "length (start_stations ds) \<le> 20" "length (end_stations ds) \<le> 20"
    by (simp_all add: start_stations_def end_stations_def top_stations_def)
  from a b c d e f show ?thesis by blast
qed

lemma unknown_listed_values:
  "export_values unknown_listed = Inr ((100, Num 3, 3, 100), (50, 3, 3, 1, 2))"
  by (simp add: unknown_listed_def mk_trip_def export_values_def export_kpis_def
      export_tables_def member_percentage_def member_trips_def total_trips_def py_div_def
      daily_efficiency_def date_range_def start_span_def div_by_float_def ns_per_day_def
      ns_per_second_def station_efficiency_def real_stations_def nunique_def not_unknown_def
      satisfaction_rate_def optimal_trips_def real_station_percentage_def
      total_start_stations_def duration_bins_def reasonable_rides_def
      end_station_efficiency_def peak_hour_trips_def hourly_data_def groupby_agg_def agg_def
      iloc0_def start_hour_def ns_per_hour_def)

lemma unknown_listed_export_tables:
  "start_stations unknown_listed =
     [\<lparr>station_name = ''Unknown'', station_total_trips = 2, percentage = 200 / 3\<rparr>,
      \<lparr>station_name = ''Clark St'', station_total_trips = 1, percentage = 100 / 3\<rparr>]"
  "end_stations unknown_listed =
     [\<lparr>station_name = ''Unknown'', station_total_trips = 2, percentage = 200 / 3\<rparr>,
      \<lparr>station_name = ''Canal St'', station_total_trips = 1, percentage = 100 / 3\<rparr>]"
  by (simp_all add: start_stations_def end_stations_def top_stations_def value_counts_def
      first_appearance_def unknown_listed_def mk_trip_def total_trips_def)

lemma unknown_listed_analysis_tables:
  "real_stations_start unknown_listed = [(''Clark St'', 1)]"
  "real_stations_end unknown_listed = [(''Canal St'', 1)]"
  by (simp_all add: real_stations_start_def real_stations_end_def value_counts_def
      first_appearance_def not_unknown_def unknown_listed_def mk_trip_def)

text \<open>
  Claim C5, which the export script breaks. On one trip between known stations and two
  trips from \<open>''Unknown''\<close> to \<open>''Unknown''\<close>, the export script runs to its end
  (all its values are computed), and the sentinel is the first row of its top start table
  and of its top end table, with two thirds of the trips; the analysis script's tables of
  lines 506--507, which filter the sentinel out first, list the known station only.
\<close>

theorem export_top_tables_list_unknown:
  "export_values unknown_listed = Inr ((100, Num 3, 3, 100), (50, 3, 3, 1, 2)) \<and>
   start_stations unknown_listed =
     [\<lparr>station_name = ''Unknown'', station_total_trips = 2, percentage = 200 / 3\<rparr>,
      \<lparr>station_name = ''Clark St'', station_total_trips = 1, percentage = 100 / 3\<rparr>] \<and>
   end_stations unknown_listed =
     [\<lparr>station_name = ''Unknown'', station_total_trips = 2, percentage = 200 / 3\<rparr>,
      \<lparr>station_name = ''Canal St'', station_total_trips = 1, percentage = 100 / 3\<rparr>] \<and>
   real_stations_start unknown_listed = [(''Clark St'', 1)] \<and>
   real_stations_end unknown_listed = [(''Canal St'', 1)]"
  using unknown_listed_values unknown_listed_export_tables unknown_listed_analysis_tables
  by blast

subsection \<open>Zero denominators and absent group keys\<close>



















end
